theory Spec2Isabelle
  imports Main
begin

section \<open>Bird identifier: the classifier script\<close>

text \<open>
  The script is one module: it assigns the credential of the chat-completion client,
  defines \<open>classify_bird\<close>, calls it on a fixed path and prints what it returns.
  The name \<open>openai\<close> is taken to be the third-party client library; the service
  behind it is a parameter of the model (a deterministic stub).
\<close>

subsection \<open>Python values and exceptions\<close>

text \<open>
  The values a decoded response is made of. A dictionary is a finite map given by an
  association list (the earliest binding of a key is the live one); decoded responses
  have string keys only. One \<open>char\<close> of a model string stands for one character of the
  Python \<open>str\<close>.
\<close>

datatype pyval =
    PyNone
  | PyBool bool
  | PyInt int
  | PyStr string
  | PyList "pyval list"
  | PyDict "(string \<times> pyval) list"

datatype pykey = KStr string | KInt int

datatype os_error = ENOENT | EACCES | EISDIR

datatype py_exception =
    OSError os_error string
  | LibraryError string
  | IndexError
  | KeyError pykey
  | TypeError
  | ValueError

text \<open>
  The subscript \<open>v[k]\<close>. A list takes an integer index, negative ones counting from the
  end, and raises \<open>IndexError\<close> out of range; a dictionary raises \<open>KeyError\<close> on a
  missing key; a string indexed by an integer gives a one-character string; every
  other combination raises \<open>TypeError\<close>.
\<close>

definition index_list :: "'a list \<Rightarrow> int \<Rightarrow> py_exception + 'a" where
  "index_list xs i =
     (if 0 \<le> i
      then (if nat i < length xs then Inr (xs ! nat i) else Inl IndexError)
      else (if nat (- i) \<le> length xs then Inr (xs ! (length xs - nat (- i)))
            else Inl IndexError))"

fun getitem :: "pyval \<Rightarrow> pykey \<Rightarrow> py_exception + pyval" where
  "getitem (PyDict d) (KStr s) =
     (case map_of d s of None \<Rightarrow> Inl (KeyError (KStr s)) | Some v \<Rightarrow> Inr v)"
| "getitem (PyDict d) (KInt i) = Inl (KeyError (KInt i))"
| "getitem (PyList xs) (KInt i) = index_list xs i"
| "getitem (PyStr s) (KInt i) =
     (case index_list s i of Inl e \<Rightarrow> Inl e | Inr c \<Rightarrow> Inr (PyStr [c]))"
| "getitem _ _ = Inl TypeError"

definition bind_exc :: "py_exception + 'a \<Rightarrow> ('a \<Rightarrow> py_exception + 'b) \<Rightarrow> py_exception + 'b" where
  "bind_exc r f = (case r of Inl e \<Rightarrow> Inl e | Inr v \<Rightarrow> f v)"

subsection \<open>The world the script runs in\<close>

record py_file =
  fileno :: nat
  name :: string
  mode :: string
  data :: string

record message =
  role :: string
  content :: string

text \<open>
  One outbound request of the client: the keyword arguments of the call, and the
  credential the client reads from its module attribute \<open>api_key\<close> when the call passes
  none.
\<close>

record request =
  credential :: "string option"
  model :: string
  messages :: "message list"
  files :: "(string \<times> py_file) list"

type_synonym service = "request \<Rightarrow> py_exception + pyval"

record world =
  fs :: "string \<Rightarrow> os_error + string"
  fds :: "nat list"
  opens :: "string list"
  sent :: "request list"
  out :: string
  api_key :: "string option"

definition fresh_fd :: "nat list \<Rightarrow> nat" where
  "fresh_fd hs = Suc (fold max hs 0)"

text \<open>
  \<open>open(path, "rb")\<close>: every call is recorded in \<open>opens\<close>. A path that holds the
  character NUL is refused with \<open>ValueError\<close> (embedded null byte) before the file system
  is consulted; otherwise the call raises the error of the file system, or returns a file
  object on a descriptor that was not open.
\<close>

definition nul :: char where
  "nul = CHR 0x00"

definition py_open :: "string \<Rightarrow> string \<Rightarrow> world \<Rightarrow> (py_exception + py_file) \<times> world" where
  "py_open path md w =
     (let w1 = w\<lparr>opens := opens w @ [path]\<rparr>
      in if nul \<in> set path then (Inl ValueError, w1)
         else case fs w path of
           Inl e \<Rightarrow> (Inl (OSError e path), w1)
         | Inr bytes \<Rightarrow>
             (let fd = fresh_fd (fds w)
              in (Inr \<lparr>fileno = fd, name = path, mode = md, data = bytes\<rparr>,
                  w1\<lparr>fds := fd # fds w\<rparr>)))"

definition py_close :: "py_file \<Rightarrow> world \<Rightarrow> world" where
  "py_close f w = w\<lparr>fds := removeAll (fileno f) (fds w)\<rparr>"

text \<open>
  Modelled from the spec: the client library's \<open>openai.ChatCompletion.create\<close>, which is
  not part of the repository. It issues one request to the hosted service, authenticated
  with the process-wide credential, and returns the decoded response or raises the
  library's error. The service is the parameter \<open>svc\<close>.
\<close>

definition ChatCompletion_create ::
  "service \<Rightarrow> string \<Rightarrow> message list \<Rightarrow> (string \<times> py_file) list \<Rightarrow> world
     \<Rightarrow> (py_exception + pyval) \<times> world" where
  "ChatCompletion_create svc mdl msgs fls w =
     (let req = \<lparr>credential = api_key w, model = mdl, messages = msgs, files = fls\<rparr>
      in (svc req, w\<lparr>sent := sent w @ [req]\<rparr>))"

text \<open>
  \<open>print(a, b)\<close>: the arguments converted by \<open>str\<close>, separated by one space, ended by
  one newline. \<open>str\<close> of a string is the string; the rendering of the other values is the
  parameter \<open>render\<close>.
\<close>

definition newline :: char where
  "newline = CHR 0x0A"

definition py_str :: "(pyval \<Rightarrow> string) \<Rightarrow> pyval \<Rightarrow> string" where
  "py_str render v = (case v of PyStr s \<Rightarrow> s | _ \<Rightarrow> render v)"

fun join_sp :: "string list \<Rightarrow> string" where
  "join_sp [] = []"
| "join_sp [s] = s"
| "join_sp (s # t # ss) = s @ '' '' @ join_sp (t # ss)"

definition py_print :: "(pyval \<Rightarrow> string) \<Rightarrow> pyval list \<Rightarrow> world \<Rightarrow> world" where
  "py_print render args w = w\<lparr>out := out w @ join_sp (map (py_str render) args) @ [newline]\<rparr>"

subsection \<open>The script\<close>

text \<open>
  \<open>classify_bird\<close>: the \<open>with\<close> statement closes the file when its body returns and
  when its body raises; a failing \<open>open\<close> raises before the body; the subscripts run
  after the \<open>with\<close> statement.
\<close>

definition classify_bird :: "service \<Rightarrow> string \<Rightarrow> world \<Rightarrow> (py_exception + pyval) \<times> world" where
  "classify_bird svc image_path w =
     (case py_open image_path ''rb'' w of
        (Inl e, w1) \<Rightarrow> (Inl e, w1)
      | (Inr image_file, w1) \<Rightarrow>
          (case ChatCompletion_create svc ''gpt-4-turbo''
                  [\<lparr>role = ''system'', content = ''You are a bird species identification assistant.''\<rparr>,
                   \<lparr>role = ''user'', content = ''Identify the bird in this image.''\<rparr>]
                  [(''image'', image_file)] w1 of
             (Inl e, w2) \<Rightarrow> (Inl e, py_close image_file w2)
           | (Inr response, w2) \<Rightarrow>
               (bind_exc (getitem response (KStr ''choices'')) (\<lambda>choices.
                bind_exc (getitem choices (KInt 0)) (\<lambda>choice.
                bind_exc (getitem choice (KStr ''message'')) (\<lambda>msg.
                getitem msg (KStr ''content'')))),
                py_close image_file w2)))"

text \<open>The module body: the assignment of the credential, the call, the print.\<close>

definition module_body :: "service \<Rightarrow> (pyval \<Rightarrow> string) \<Rightarrow> world \<Rightarrow> (py_exception + unit) \<times> world" where
  "module_body svc render w =
     (let w0 = w\<lparr>api_key := Some ''your_openai_api_key''\<rparr>
      in case classify_bird svc ''bird_image.jpg'' w0 of
           (Inl e, w1) \<Rightarrow> (Inl e, w1)
         | (Inr bird_species, w1) \<Rightarrow>
             (Inr (), py_print render [PyStr ''Identified Bird:'', bird_species] w1))"

subsection \<open>The error kinds of the specification\<close>

text \<open>
  The specification names three kinds of failure; the script raises Python exceptions.
  \<open>spec_error_kind\<close> follows the specification's words: an operating-system error of
  \<open>open\<close> is \<open>FileNotFound\<close> (the specification's FileNotFound/IOError kind), a failure
  of the remote call is \<open>RemoteServiceError\<close>, a failure of the extraction from the
  response is \<open>MalformedResponse\<close>. The \<open>ValueError\<close> of \<open>open\<close> is not an I/O error and
  the specification lists no kind for it: it is \<open>Unlisted\<close>.
\<close>

datatype error_kind = FileNotFound | RemoteServiceError | MalformedResponse | Unlisted

fun spec_error_kind :: "py_exception \<Rightarrow> error_kind" where
  "spec_error_kind (OSError e path) = FileNotFound"
| "spec_error_kind (LibraryError c) = RemoteServiceError"
| "spec_error_kind IndexError = MalformedResponse"
| "spec_error_kind (KeyError k) = MalformedResponse"
| "spec_error_kind TypeError = MalformedResponse"
| "spec_error_kind ValueError = Unlisted"

subsection \<open>Concrete worlds and stub services\<close>

text \<open>
  A world whose only file is \<open>bird_image.jpg\<close>, with the three standard descriptors
  open; a stub service that gives every request the same answer; responses shaped like
  those of the hosted service.
\<close>

definition example_world :: world where
  "example_world =
     \<lparr>fs = (\<lambda>p. if p = ''bird_image.jpg'' then Inr ''JFIF'' else Inl ENOENT),
      fds = [0, 1, 2], opens = [], sent = [], out = [], api_key = None\<rparr>"

definition stub :: "py_exception + pyval \<Rightarrow> service" where
  "stub answer = (\<lambda>req. answer)"

definition chat_completion :: "pyval list \<Rightarrow> pyval" where
  "chat_completion cs =
     PyDict [(''id'', PyStr ''chatcmpl-1''), (''object'', PyStr ''chat.completion''),
             (''choices'', PyList cs)]"

definition assistant_choice :: "string \<Rightarrow> pyval" where
  "assistant_choice t =
     PyDict [(''index'', PyInt 0),
             (''message'', PyDict [(''role'', PyStr ''assistant''), (''content'', PyStr t)])]"

definition no_render :: "pyval \<Rightarrow> string" where
  "no_render v = []"

section \<open>Properties\<close>

subsection \<open>Auxiliary facts\<close>

lemma fold_max_ge: "a \<le> fold max hs (a::nat) \<and> (\<forall>x \<in> set hs. x \<le> fold max hs a)"
proof (induction hs arbitrary: a)
  case Nil
  show ?case by simp
next
  case (Cons h hs)
  from Cons.IH [of "max h a"] show ?case by auto
qed

lemma fresh_fd_notin: "fresh_fd hs \<notin> set hs"
proof
  assume "fresh_fd hs \<in> set hs"
  then have "fresh_fd hs \<le> fold max hs 0" using fold_max_ge [of 0 hs] by blast
  then show False by (simp add: fresh_fd_def)
qed

lemma close_fresh: "removeAll (fresh_fd hs) hs = hs"
  using fresh_fd_notin [of hs] by simp

lemma nul_free_name: "nul \<notin> set ''bird_image.jpg''"
  by (simp add: nul_def)

lemma classify_bird_nul:
  "nul \<in> set p \<Longrightarrow> classify_bird svc p w = (Inl ValueError, w\<lparr>opens := opens w @ [p]\<rparr>)"
  by (simp add: classify_bird_def py_open_def Let_def)

lemma classify_bird_no_file:
  "nul \<notin> set p \<Longrightarrow> fs w p = Inl e \<Longrightarrow>
   classify_bird svc p w = (Inl (OSError e p), w\<lparr>opens := opens w @ [p]\<rparr>)"
  by (simp add: classify_bird_def py_open_def Let_def)

lemma classify_bird_file:
  fixes w :: world
  defines "req bytes p \<equiv>
     \<lparr>credential = api_key w, model = ''gpt-4-turbo'',
      messages = [\<lparr>role = ''system'', content = ''You are a bird species identification assistant.''\<rparr>,
                  \<lparr>role = ''user'', content = ''Identify the bird in this image.''\<rparr>],
      files = [(''image'', \<lparr>fileno = fresh_fd (fds w), name = p, mode = ''rb'', data = bytes\<rparr>)]\<rparr>"
  assumes "nul \<notin> set p" and "fs w p = Inr bytes"
  shows "classify_bird svc p w =
     (bind_exc (svc (req bytes p)) (\<lambda>response.
        bind_exc (getitem response (KStr ''choices'')) (\<lambda>choices.
        bind_exc (getitem choices (KInt 0)) (\<lambda>choice.
        bind_exc (getitem choice (KStr ''message'')) (\<lambda>msg.
        getitem msg (KStr ''content''))))),
      w\<lparr>opens := opens w @ [p], sent := sent w @ [req bytes p]\<rparr>)"
  using assms(2,3)
  by (cases "svc (req bytes p)")
     (simp_all add: req_def classify_bird_def py_open_def ChatCompletion_create_def py_close_def
        bind_exc_def close_fresh Let_def)

lemma classify_bird_opens: "opens (snd (classify_bird svc p w)) = opens w @ [p]"
  by (cases "nul \<in> set p"; cases "fs w p")
     (simp_all add: classify_bird_nul classify_bird_no_file classify_bird_file)

lemma classify_bird_out: "out (snd (classify_bird svc p w)) = out w"
  by (cases "nul \<in> set p"; cases "fs w p")
     (simp_all add: classify_bird_nul classify_bird_no_file classify_bird_file)

lemma classify_bird_api_key: "api_key (snd (classify_bird svc p w)) = api_key w"
  by (cases "nul \<in> set p"; cases "fs w p")
     (simp_all add: classify_bird_nul classify_bird_no_file classify_bird_file)

lemma classify_bird_fds: "fds (snd (classify_bird svc p w)) = fds w"
  by (cases "nul \<in> set p"; cases "fs w p")
     (simp_all add: classify_bird_nul classify_bird_no_file classify_bird_file)

lemma classify_bird_fs: "fs (snd (classify_bird svc p w)) = fs w"
  by (cases "nul \<in> set p"; cases "fs w p")
     (simp_all add: classify_bird_nul classify_bird_no_file classify_bird_file)

lemma classify_bird_sent:
  "sent (snd (classify_bird svc p w)) =
     sent w @
     (if nul \<in> set p then []
      else case fs w p of
        Inl e \<Rightarrow> []
      | Inr bytes \<Rightarrow>
          [\<lparr>credential = api_key w, model = ''gpt-4-turbo'',
            messages = [\<lparr>role = ''system'', content = ''You are a bird species identification assistant.''\<rparr>,
                        \<lparr>role = ''user'', content = ''Identify the bird in this image.''\<rparr>],
            files = [(''image'', \<lparr>fileno = fresh_fd (fds w), name = p, mode = ''rb'', data = bytes\<rparr>)]\<rparr>])"
  by (cases "nul \<in> set p"; cases "fs w p")
     (simp_all add: classify_bird_nul classify_bird_no_file classify_bird_file)

lemma classify_bird_answered:
  assumes "sent (snd (classify_bird svc p w)) = sent w @ [req]"
  shows "fst (classify_bird svc p w) =
     bind_exc (svc req) (\<lambda>response.
        bind_exc (getitem response (KStr ''choices'')) (\<lambda>choices.
        bind_exc (getitem choices (KInt 0)) (\<lambda>choice.
        bind_exc (getitem choice (KStr ''message'')) (\<lambda>msg.
        getitem msg (KStr ''content'')))))"
proof (cases "nul \<in> set p")
  case True
  with assms show ?thesis by (simp add: classify_bird_nul)
next
  case False
  show ?thesis
  proof (cases "fs w p")
    case (Inl e)
    with assms False show ?thesis by (simp add: classify_bird_no_file)
  next
    case (Inr bytes)
    with assms False show ?thesis by (simp add: classify_bird_file)
  qed
qed

lemma module_body_unfold:
  "module_body svc render w =
     (case classify_bird svc ''bird_image.jpg'' (w\<lparr>api_key := Some ''your_openai_api_key''\<rparr>) of
        (Inl e, w1) \<Rightarrow> (Inl e, w1)
      | (Inr bird_species, w1) \<Rightarrow>
          (Inr (), w1\<lparr>out := out w1 @ ''Identified Bird: '' @ py_str render bird_species @ [newline]\<rparr>))"
  by (simp add: module_body_def py_print_def py_str_def Let_def split: prod.splits sum.splits)

lemma module_body_result:
  "fst (module_body svc render w) =
     (case fst (classify_bird svc ''bird_image.jpg'' (w\<lparr>api_key := Some ''your_openai_api_key''\<rparr>)) of
        Inl e \<Rightarrow> Inl e | Inr v \<Rightarrow> Inr ())"
  by (simp add: module_body_unfold split: prod.splits sum.splits)

lemma module_body_out:
  "out (snd (module_body svc render w)) =
     out w @
     (case fst (classify_bird svc ''bird_image.jpg'' (w\<lparr>api_key := Some ''your_openai_api_key''\<rparr>)) of
        Inl e \<Rightarrow> []
      | Inr v \<Rightarrow> ''Identified Bird: '' @ py_str render v @ [newline])"
proof (cases "classify_bird svc ''bird_image.jpg'' (w\<lparr>api_key := Some ''your_openai_api_key''\<rparr>)")
  case (Pair r w1)
  have "out w1 = out w"
    using classify_bird_out [of svc "''bird_image.jpg''" "w\<lparr>api_key := Some ''your_openai_api_key''\<rparr>"]
    by (simp add: Pair)
  then show ?thesis by (cases r) (simp_all add: module_body_unfold Pair)
qed

lemma module_body_trace:
  "opens (snd (module_body svc render w)) =
     opens (snd (classify_bird svc ''bird_image.jpg'' (w\<lparr>api_key := Some ''your_openai_api_key''\<rparr>))) \<and>
   sent (snd (module_body svc render w)) =
     sent (snd (classify_bird svc ''bird_image.jpg'' (w\<lparr>api_key := Some ''your_openai_api_key''\<rparr>))) \<and>
   api_key (snd (module_body svc render w)) =
     api_key (snd (classify_bird svc ''bird_image.jpg'' (w\<lparr>api_key := Some ''your_openai_api_key''\<rparr>)))"
  by (simp add: module_body_unfold split: prod.splits sum.splits)

lemma example_run:
  "classify_bird (stub (Inr (chat_completion [assistant_choice t]))) ''bird_image.jpg''
     (example_world\<lparr>api_key := k\<rparr>) =
   (Inr (PyStr t),
    example_world\<lparr>api_key := k, opens := [''bird_image.jpg''],
      sent := [\<lparr>credential = k, model = ''gpt-4-turbo'',
        messages = [\<lparr>role = ''system'', content = ''You are a bird species identification assistant.''\<rparr>,
                    \<lparr>role = ''user'', content = ''Identify the bird in this image.''\<rparr>],
        files = [(''image'', \<lparr>fileno = 3, name = ''bird_image.jpg'', mode = ''rb'', data = ''JFIF''\<rparr>)]\<rparr>]\<rparr>)"
  by (simp add: classify_bird_file [OF nul_free_name, where bytes = "''JFIF''"] example_world_def
        stub_def chat_completion_def assistant_choice_def bind_exc_def index_list_def fresh_fd_def)

subsection \<open>The claims\<close>

text \<open>
  Claim C1, as stated, at a concrete input: the service answers with a response whose
  choices sequence has one element, that element has no \<open>message\<close> field, and the call
  raises \<open>KeyError\<close> instead of returning a text.
\<close>

theorem classify_bird_nonempty_choices_counterexample:
  "getitem (chat_completion [PyDict [(''index'', PyInt 0)]]) (KStr ''choices'')
     = Inr (PyList [PyDict [(''index'', PyInt 0)]]) \<and>
   length (sent (snd (classify_bird (stub (Inr (chat_completion [PyDict [(''index'', PyInt 0)]])))
      ''bird_image.jpg'' example_world))) = 1 \<and>
   fst (classify_bird (stub (Inr (chat_completion [PyDict [(''index'', PyInt 0)]])))
      ''bird_image.jpg'' example_world) = Inl (KeyError (KStr ''message''))"
  by (simp add: classify_bird_file [OF nul_free_name, where bytes = "''JFIF''"] example_world_def
        stub_def chat_completion_def bind_exc_def index_list_def)

text \<open>
  Claim C1, amended: when the service answers the request of the call with a response
  whose choices sequence is non-empty, whose first choice has a message and whose message
  has a content, \<open>classify_bird\<close> returns exactly that content, unmodified.
\<close>

theorem classify_bird_returns_first_content:
  assumes "sent (snd (classify_bird svc p w)) = sent w @ [req]"
    and "svc req = Inr response"
    and "getitem response (KStr ''choices'') = Inr (PyList (choice # rest))"
    and "getitem choice (KStr ''message'') = Inr msg"
    and "getitem msg (KStr ''content'') = Inr text"
  shows "fst (classify_bird svc p w) = Inr text"
  using assms(2-5) by (simp add: classify_bird_answered [OF assms(1)] bind_exc_def index_list_def)

text \<open>
  The stub of the specification: one choice with the text \<open>Northern Cardinal\<close>.
\<close>

theorem classify_bird_returns_first_content_witness:
  "fst (classify_bird (stub (Inr (chat_completion [assistant_choice ''Northern Cardinal''])))
      ''bird_image.jpg'' example_world) = Inr (PyStr ''Northern Cardinal'')"
proof -
  let ?svc = "stub (Inr (chat_completion [assistant_choice ''Northern Cardinal'']))"
  let ?req = "\<lparr>credential = None, model = ''gpt-4-turbo'',
      messages = [\<lparr>role = ''system'', content = ''You are a bird species identification assistant.''\<rparr>,
                  \<lparr>role = ''user'', content = ''Identify the bird in this image.''\<rparr>],
      files = [(''image'', \<lparr>fileno = 3, name = ''bird_image.jpg'', mode = ''rb'', data = ''JFIF''\<rparr>)]\<rparr>"
  have 1: "sent (snd (classify_bird ?svc ''bird_image.jpg'' example_world)) = sent example_world @ [?req]"
    by (simp add: classify_bird_sent nul_def example_world_def fresh_fd_def)
  have 2: "?svc ?req = Inr (chat_completion [assistant_choice ''Northern Cardinal''])"
    by (simp add: stub_def)
  have 3: "getitem (chat_completion [assistant_choice ''Northern Cardinal'']) (KStr ''choices'')
             = Inr (PyList (assistant_choice ''Northern Cardinal'' # []))"
    by (simp add: chat_completion_def)
  have 4: "getitem (assistant_choice ''Northern Cardinal'') (KStr ''message'')
             = Inr (PyDict [(''role'', PyStr ''assistant''), (''content'', PyStr ''Northern Cardinal'')])"
    by (simp add: assistant_choice_def)
  have 5: "getitem (PyDict [(''role'', PyStr ''assistant''), (''content'', PyStr ''Northern Cardinal'')])
             (KStr ''content'') = Inr (PyStr ''Northern Cardinal'')"
    by simp
  show ?thesis by (rule classify_bird_returns_first_content [OF 1 2 3 4 5])
qed

text \<open>
  Claim C2: when the service answers the request of the call with a response that has
  zero choices, \<open>classify_bird\<close> fails: the subscript \<open>[0]\<close> raises \<open>IndexError\<close>, which is
  of the \<open>MalformedResponse\<close> kind; no string is returned.
\<close>

theorem classify_bird_zero_choices:
  assumes "sent (snd (classify_bird svc p w)) = sent w @ [req]"
    and "svc req = Inr response"
    and "getitem response (KStr ''choices'') = Inr (PyList [])"
  shows "fst (classify_bird svc p w) = Inl IndexError \<and>
         spec_error_kind IndexError = MalformedResponse"
  using assms(2,3) by (simp add: classify_bird_answered [OF assms(1)] bind_exc_def index_list_def)

text \<open>A stub that returns zero choices.\<close>

theorem classify_bird_zero_choices_witness:
  "fst (classify_bird (stub (Inr (chat_completion []))) ''bird_image.jpg'' example_world)
     = Inl IndexError \<and> spec_error_kind IndexError = MalformedResponse"
proof -
  let ?svc = "stub (Inr (chat_completion []))"
  let ?req = "\<lparr>credential = None, model = ''gpt-4-turbo'',
      messages = [\<lparr>role = ''system'', content = ''You are a bird species identification assistant.''\<rparr>,
                  \<lparr>role = ''user'', content = ''Identify the bird in this image.''\<rparr>],
      files = [(''image'', \<lparr>fileno = 3, name = ''bird_image.jpg'', mode = ''rb'', data = ''JFIF''\<rparr>)]\<rparr>"
  have 1: "sent (snd (classify_bird ?svc ''bird_image.jpg'' example_world)) = sent example_world @ [?req]"
    by (simp add: classify_bird_sent nul_def example_world_def fresh_fd_def)
  have 2: "?svc ?req = Inr (chat_completion [])"
    by (simp add: stub_def)
  have 3: "getitem (chat_completion []) (KStr ''choices'') = Inr (PyList [])"
    by (simp add: chat_completion_def)
  show ?thesis by (rule classify_bird_zero_choices [OF 1 2 3])
qed




text \<open>
  Claim C4: on every exit path of \<open>classify_bird\<close> (a return, a failing \<open>open\<close>, a failing
  remote call, a failing extraction) the descriptors open after the call are those open
  before it, and the descriptor the call opens is not among them.
\<close>

theorem classify_bird_releases_file:
  "fds (snd (classify_bird svc p w)) = fds w \<and>
   fresh_fd (fds w) \<notin> set (fds (snd (classify_bird svc p w)))"
  by (simp add: classify_bird_fds fresh_fd_notin)

text \<open>
  Claim C5: a call issues no request when the file cannot be opened (the path holds a NUL
  character, or the file system refuses it), and otherwise exactly one, which carries the
  fixed system prompt, the fixed user prompt, the model \<open>gpt-4-turbo\<close> and the opened
  image file as the \<open>image\<close> attachment.
\<close>

theorem classify_bird_request:
  "sent (snd (classify_bird svc p w)) =
     sent w @
     (if nul \<in> set p then []
      else case fs w p of
        Inl e \<Rightarrow> []
      | Inr bytes \<Rightarrow>
          [\<lparr>credential = api_key w, model = ''gpt-4-turbo'',
            messages = [\<lparr>role = ''system'', content = ''You are a bird species identification assistant.''\<rparr>,
                        \<lparr>role = ''user'', content = ''Identify the bird in this image.''\<rparr>],
            files = [(''image'', \<lparr>fileno = fresh_fd (fds w), name = p, mode = ''rb'', data = bytes\<rparr>)]\<rparr>])"
  by (rule classify_bird_sent)

text \<open>
  Claim C6: for every path and every deterministic stub service, a second call of
  \<open>classify_bird\<close> with the same path, made in the world the first call leaves, yields
  the result of the first.
\<close>

theorem classify_bird_repeatable:
  "fst (classify_bird svc p (snd (classify_bird svc p w))) = fst (classify_bird svc p w)"
proof (cases "nul \<in> set p")
  case True
  then show ?thesis by (simp add: classify_bird_nul)
next
  case False
  show ?thesis
  proof (cases "fs w p")
    case (Inl e)
    with False show ?thesis by (simp add: classify_bird_no_file)
  next
    case (Inr bytes)
    with False show ?thesis by (simp add: classify_bird_file)
  qed
qed

text \<open>
  Claim C7, as stated, at a concrete input: the run succeeds, the text the service returns
  holds a newline, and what the program writes holds two newlines: two lines, not one.
\<close>

theorem module_body_one_line_counterexample:
  "fst (module_body (stub (Inr (chat_completion [assistant_choice (''Northern Cardinal'' @ [newline] @ ''Male'')])))
      no_render example_world) = Inr () \<and>
   out (snd (module_body (stub (Inr (chat_completion [assistant_choice (''Northern Cardinal'' @ [newline] @ ''Male'')])))
      no_render example_world)) = ''Identified Bird: Northern Cardinal'' @ [newline] @ ''Male'' @ [newline] \<and>
   count_list (out (snd (module_body (stub (Inr (chat_completion [assistant_choice (''Northern Cardinal'' @ [newline] @ ''Male'')])))
      no_render example_world))) newline = 2"
  by (simp add: module_body_unfold example_run py_str_def) (simp add: example_world_def newline_def)

text \<open>
  Claim C7, amended: on a successful run where \<open>classify_bird\<close> returns the string
  \<open>text\<close>, the program writes to standard output exactly \<open>Identified Bird: \<close> followed by
  \<open>text\<close> and one newline; the number of lines written is one more than the number of
  newlines in \<open>text\<close>, so it is one line when \<open>text\<close> holds no newline.
\<close>

theorem module_body_prints:
  assumes "fst (classify_bird svc ''bird_image.jpg'' (w\<lparr>api_key := Some ''your_openai_api_key''\<rparr>)) = Inr (PyStr text)"
  shows "fst (module_body svc render w) = Inr () \<and>
         out (snd (module_body svc render w)) = out w @ ''Identified Bird: '' @ text @ [newline] \<and>
         count_list (''Identified Bird: '' @ text @ [newline]) newline = Suc (count_list text newline)"
  using assms by (simp add: module_body_result module_body_out py_str_def newline_def)

text \<open>A run that prints one line.\<close>

theorem module_body_prints_witness:
  "fst (module_body (stub (Inr (chat_completion [assistant_choice ''Northern Cardinal''])))
      no_render example_world) = Inr () \<and>
   out (snd (module_body (stub (Inr (chat_completion [assistant_choice ''Northern Cardinal''])))
      no_render example_world)) = ''Identified Bird: Northern Cardinal'' @ [newline] \<and>
   count_list (''Identified Bird: Northern Cardinal'' @ [newline]) newline = 1"
proof -
  let ?svc = "stub (Inr (chat_completion [assistant_choice ''Northern Cardinal'']))"
  have h: "fst (classify_bird ?svc ''bird_image.jpg''
             (example_world\<lparr>api_key := Some ''your_openai_api_key''\<rparr>)) = Inr (PyStr ''Northern Cardinal'')"
    by (simp add: example_run)
  have o: "out example_world = []"
    by (simp add: example_world_def)
  have c: "count_list ''Northern Cardinal'' newline = 0"
    by (simp add: newline_def)
  show ?thesis
    using module_body_prints [OF h, of no_render] o c by simp
qed

text \<open>
  Claim C8: the module body assigns the literal \<open>your_openai_api_key\<close> to \<open>api_key\<close>
  before the call, every request the run issues carries that credential, and the
  credential still has that value when the run ends; \<open>classify_bird\<close> itself leaves
  \<open>api_key\<close> as it finds it and every request it issues carries it.
\<close>

theorem module_body_credential:
  "api_key (snd (module_body svc render w)) = Some ''your_openai_api_key'' \<and>
   (\<forall>r \<in> set (drop (length (sent w)) (sent (snd (module_body svc render w)))).
      credential r = Some ''your_openai_api_key'') \<and>
   api_key (snd (classify_bird svc p w)) = api_key w \<and>
   (\<forall>r \<in> set (drop (length (sent w)) (sent (snd (classify_bird svc p w)))).
      credential r = api_key w)"
proof -
  have a: "\<forall>r \<in> set (drop (length (sent v)) (sent (snd (classify_bird svc q v)))).
      credential r = api_key v" for q v
    by (cases "fs v q") (simp_all add: classify_bird_sent)
  from a [of "w\<lparr>api_key := Some ''your_openai_api_key''\<rparr>" "''bird_image.jpg''"]
  have b: "\<forall>r \<in> set (drop (length (sent w)) (sent (snd (module_body svc render w)))).
      credential r = Some ''your_openai_api_key''"
    by (simp add: module_body_trace)
  have c: "api_key (snd (module_body svc render w)) = Some ''your_openai_api_key''"
    by (simp add: module_body_trace classify_bird_api_key)
  show ?thesis using a [of w p] b c by (simp add: classify_bird_api_key)
qed

text \<open>A run that issues a request.\<close>

theorem module_body_credential_witness:
  "drop (length (sent example_world))
     (sent (snd (module_body (stub (Inr (chat_completion [assistant_choice ''Northern Cardinal''])))
        no_render example_world))) \<noteq> [] \<and>
   credential (last (sent (snd (module_body (stub (Inr (chat_completion [assistant_choice ''Northern Cardinal''])))
        no_render example_world)))) = Some ''your_openai_api_key'' \<and>
   api_key (snd (module_body (stub (Inr (chat_completion [assistant_choice ''Northern Cardinal''])))
        no_render example_world)) = Some ''your_openai_api_key''"
proof -
  let ?svc = "stub (Inr (chat_completion [assistant_choice ''Northern Cardinal'']))"
  let ?new = "drop (length (sent example_world)) (sent (snd (module_body ?svc no_render example_world)))"
  have n: "?new = sent (snd (module_body ?svc no_render example_world))"
    by (simp add: example_world_def)
  have m: "sent (snd (module_body ?svc no_render example_world)) \<noteq> []"
    by (simp add: module_body_trace example_run)
  then have l: "last (sent (snd (module_body ?svc no_render example_world))) \<in> set ?new"
    using n by simp
  from module_body_credential [of ?svc no_render example_world "''bird_image.jpg''"] l
  have "credential (last (sent (snd (module_body ?svc no_render example_world)))) = Some ''your_openai_api_key''"
    by blast
  then show ?thesis
    using n m module_body_credential [of ?svc no_render example_world "''bird_image.jpg''"] by simp
qed

text \<open>
  Claim C9: when the choices sequence of the response is non-empty and its first choice
  has no \<open>message\<close> field, or has a message without a \<open>content\<close> field,
  \<open>classify_bird\<close> fails: the subscript raises \<open>KeyError\<close> for the missing field.
\<close>

theorem classify_bird_missing_field:
  assumes "sent (snd (classify_bird svc p w)) = sent w @ [req]"
    and "svc req = Inr response"
    and "getitem response (KStr ''choices'') = Inr (PyList (PyDict d # rest))"
    and "map_of d ''message'' = None \<or>
         (\<exists>m. map_of d ''message'' = Some (PyDict m) \<and> map_of m ''content'' = None)"
  shows "fst (classify_bird svc p w) =
         Inl (KeyError (KStr (if map_of d ''message'' = None then ''message'' else ''content'')))"
  using assms(2-4)
  by (auto simp add: classify_bird_answered [OF assms(1)] bind_exc_def index_list_def)

text \<open>A first choice without a message, and one whose message has no content.\<close>

theorem classify_bird_missing_field_witness:
  "fst (classify_bird (stub (Inr (chat_completion [PyDict [(''index'', PyInt 0)]])))
      ''bird_image.jpg'' example_world) = Inl (KeyError (KStr ''message'')) \<and>
   fst (classify_bird (stub (Inr (chat_completion
          [PyDict [(''index'', PyInt 0), (''message'', PyDict [(''role'', PyStr ''assistant'')])]])))
      ''bird_image.jpg'' example_world) = Inl (KeyError (KStr ''content''))"
proof -
  let ?d1 = "[(''index'', PyInt 0)]"
  let ?d2 = "[(''index'', PyInt 0), (''message'', PyDict [(''role'', PyStr ''assistant'')])]"
  let ?req = "\<lparr>credential = None, model = ''gpt-4-turbo'',
      messages = [\<lparr>role = ''system'', content = ''You are a bird species identification assistant.''\<rparr>,
                  \<lparr>role = ''user'', content = ''Identify the bird in this image.''\<rparr>],
      files = [(''image'', \<lparr>fileno = 3, name = ''bird_image.jpg'', mode = ''rb'', data = ''JFIF''\<rparr>)]\<rparr>"
  let ?svc1 = "stub (Inr (chat_completion [PyDict ?d1]))"
  let ?svc2 = "stub (Inr (chat_completion [PyDict ?d2]))"
  have s1: "sent (snd (classify_bird ?svc1 ''bird_image.jpg'' example_world)) = sent example_world @ [?req]"
    by (simp add: classify_bird_sent nul_def example_world_def fresh_fd_def)
  have s2: "sent (snd (classify_bird ?svc2 ''bird_image.jpg'' example_world)) = sent example_world @ [?req]"
    by (simp add: classify_bird_sent nul_def example_world_def fresh_fd_def)
  have a1: "?svc1 ?req = Inr (chat_completion [PyDict ?d1])"
    by (simp add: stub_def)
  have a2: "?svc2 ?req = Inr (chat_completion [PyDict ?d2])"
    by (simp add: stub_def)
  have c1: "getitem (chat_completion [PyDict ?d1]) (KStr ''choices'') = Inr (PyList (PyDict ?d1 # []))"
    by (simp add: chat_completion_def)
  have c2: "getitem (chat_completion [PyDict ?d2]) (KStr ''choices'') = Inr (PyList (PyDict ?d2 # []))"
    by (simp add: chat_completion_def)
  have h1: "map_of ?d1 ''message'' = None \<or>
         (\<exists>m. map_of ?d1 ''message'' = Some (PyDict m) \<and> map_of m ''content'' = None)"
    by simp
  have h2: "map_of ?d2 ''message'' = None \<or>
         (\<exists>m. map_of ?d2 ''message'' = Some (PyDict m) \<and> map_of m ''content'' = None)"
    by simp
  show ?thesis
    using classify_bird_missing_field [OF s1 a1 c1 h1] classify_bird_missing_field [OF s2 a2 c2 h2]
    by simp
qed

text \<open>
  Claim C10: the module body has no guard: in every world it calls \<open>classify_bird\<close>
  exactly once, on the path \<open>bird_image.jpg\<close> (one \<open>open\<close> of that path, and the one
  request of that call when the file opens), and prints the result the call returns; when
  the call raises, the exception leaves the module and nothing is printed.
\<close>

theorem module_body_unguarded:
  "opens (snd (module_body svc render w)) = opens w @ [''bird_image.jpg''] \<and>
   sent (snd (module_body svc render w)) =
     sent w @
     (case fs w ''bird_image.jpg'' of
        Inl e \<Rightarrow> []
      | Inr bytes \<Rightarrow>
          [\<lparr>credential = Some ''your_openai_api_key'', model = ''gpt-4-turbo'',
            messages = [\<lparr>role = ''system'', content = ''You are a bird species identification assistant.''\<rparr>,
                        \<lparr>role = ''user'', content = ''Identify the bird in this image.''\<rparr>],
            files = [(''image'', \<lparr>fileno = fresh_fd (fds w), name = ''bird_image.jpg'',
                                  mode = ''rb'', data = bytes\<rparr>)]\<rparr>]) \<and>
   (case fst (classify_bird svc ''bird_image.jpg'' (w\<lparr>api_key := Some ''your_openai_api_key''\<rparr>)) of
      Inl e \<Rightarrow>
        fst (module_body svc render w) = Inl e \<and> out (snd (module_body svc render w)) = out w
    | Inr bird_species \<Rightarrow>
        fst (module_body svc render w) = Inr () \<and>
        out (snd (module_body svc render w)) =
          out w @ ''Identified Bird: '' @ py_str render bird_species @ [newline])"
proof -
  have 1: "opens (snd (module_body svc render w)) = opens w @ [''bird_image.jpg'']"
    by (simp add: module_body_trace classify_bird_opens)
  have 2: "sent (snd (module_body svc render w)) =
     sent w @
     (case fs w ''bird_image.jpg'' of
        Inl e \<Rightarrow> []
      | Inr bytes \<Rightarrow>
          [\<lparr>credential = Some ''your_openai_api_key'', model = ''gpt-4-turbo'',
            messages = [\<lparr>role = ''system'', content = ''You are a bird species identification assistant.''\<rparr>,
                        \<lparr>role = ''user'', content = ''Identify the bird in this image.''\<rparr>],
            files = [(''image'', \<lparr>fileno = fresh_fd (fds w), name = ''bird_image.jpg'',
                                  mode = ''rb'', data = bytes\<rparr>)]\<rparr>])"
    by (simp add: module_body_trace classify_bird_sent nul_def split: sum.splits)
  have 3: "(case fst (classify_bird svc ''bird_image.jpg'' (w\<lparr>api_key := Some ''your_openai_api_key''\<rparr>)) of
      Inl e \<Rightarrow>
        fst (module_body svc render w) = Inl e \<and> out (snd (module_body svc render w)) = out w
    | Inr bird_species \<Rightarrow>
        fst (module_body svc render w) = Inr () \<and>
        out (snd (module_body svc render w)) =
          out w @ ''Identified Bird: '' @ py_str render bird_species @ [newline])"
    by (simp add: module_body_result module_body_out split: sum.splits)
  from 1 2 3 show ?thesis by blast
qed

text \<open>Loading the module in a world that has the file.\<close>

theorem module_body_unguarded_witness:
  "opens (snd (module_body (stub (Inr (chat_completion [assistant_choice ''Northern Cardinal''])))
      no_render example_world)) = [''bird_image.jpg''] \<and>
   length (sent (snd (module_body (stub (Inr (chat_completion [assistant_choice ''Northern Cardinal''])))
      no_render example_world))) = 1 \<and>
   out (snd (module_body (stub (Inr (chat_completion [assistant_choice ''Northern Cardinal''])))
      no_render example_world)) = ''Identified Bird: Northern Cardinal'' @ [newline]"
proof -
  let ?svc = "stub (Inr (chat_completion [assistant_choice ''Northern Cardinal'']))"
  have f: "fs example_world ''bird_image.jpg'' = Inr ''JFIF''"
    by (simp add: example_world_def)
  have e: "opens example_world = [] \<and> sent example_world = [] \<and> out example_world = []"
    by (simp add: example_world_def)
  have r: "fst (classify_bird ?svc ''bird_image.jpg''
             (example_world\<lparr>api_key := Some ''your_openai_api_key''\<rparr>)) = Inr (PyStr ''Northern Cardinal'')"
    by (simp add: example_run)
  show ?thesis
    using module_body_unguarded [of ?svc no_render example_world] f e r
    by (simp add: py_str_def)
qed

end
